theory Spec2Isabelle
  imports Main "HOL-Library.Sublist"
begin

section \<open>The search filter of tgbox: \<open>search_generator\<close> (src/tgbox/api/utils.py)\<close>

subsection \<open>Data\<close>

text \<open>
  The exceptions the generator can end with: \<open>AttributeError\<close> (\<open>lb.files\<close> with
  \<open>lb = None\<close>), the \<open>ValueError\<close> of line 222, and \<open>ReError\<close>, the \<open>re.error\<close> that
  \<open>re.search\<close> raises on a pattern that does not compile.
\<close>

datatype error = AttributeError | ValueError | ReError

text \<open>
  A box file as the generator reads it. The three \<open>has_\<close> fields are the results of
  \<open>hasattr(file, '_message')\<close>, \<open>hasattr(file, '_tgbox_db')\<close> and
  \<open>hasattr(file, '_cattrs')\<close>. \<open>size'\<close> and \<open>id'\<close> are the attributes \<open>size\<close> and \<open>id\<close>.
  \<open>cattrs\<close> is a dict, read with \<open>k in file.cattrs\<close> and \<open>file.cattrs[k]\<close> only.
\<close>

record box_file =
  has_message :: bool
  has_tgbox_db :: bool
  has_cattrs :: bool
  file_size :: int
  size' :: int
  exported :: bool
  mime :: string
  upload_time :: int
  id' :: int
  cattrs :: "(string \<times> string) list"
  file_path :: string
  file_name :: string
  file_salt :: string
  verbyte :: string

text \<open>
  Modelled from the spec: the class \<open>SearchFilter\<close> (module \<open>tgbox.tools\<close>) is not among
  the sources. It holds two dicts, \<open>in_filters\<close> and \<open>ex_filters\<close>, with the keys read by
  \<open>search_generator\<close>. The range keys and the set keys hold lists; a \<open>cattrs\<close> entry is a
  dict, iterated with \<open>items()\<close>; \<open>exported\<close> is the spec's tri-state (unset, true,
  false); of \<open>re\<close> only the truth value is read.
\<close>

record filters =
  flt_re :: bool
  flt_exported :: "bool option"
  flt_mime :: "string list"
  flt_min_time :: "int list"
  flt_max_time :: "int list"
  flt_min_size :: "int list"
  flt_max_size :: "int list"
  flt_min_id :: "int list"
  flt_max_id :: "int list"
  flt_id :: "int list"
  flt_cattrs :: "(string \<times> string) list list"
  flt_file_path :: "string list"
  flt_file_name :: "string list"
  flt_file_salt :: "string list"
  flt_verbyte :: "string list"

record search_filter =
  in_filters :: filters
  ex_filters :: filters

subsection \<open>Matching\<close>

text \<open>
  \<open>in_func(p, s)\<close> is either \<open>re.search\<close>, which raises on a pattern that does not
  compile and whose result is otherwise read for its truth value, or \<open>p in s\<close> on
  strings. \<open>re.search\<close> belongs to the Python library: it is a parameter of the model.
\<close>

type_synonym matcher = "string \<Rightarrow> string \<Rightarrow> error + bool"

definition str_in :: matcher where
  "str_in p s = Inr (sublist p s)"

definition in_func :: "matcher \<Rightarrow> search_filter \<Rightarrow> matcher" where
  "in_func re_search sf = (if flt_re (in_filters sf) then re_search else str_in)"

subsection \<open>The blocks of the filter loop\<close>

text \<open>
  \<open>yield_result\<close> is the list of two flags. A block of the loop over
  \<open>(sf.in_filters, sf.ex_filters)\<close> either falls through to the next block (\<open>Next\<close>) or
  leaves that loop (\<open>Break\<close>).
\<close>

datatype flow = Next | Break

type_synonym block = "bool list \<Rightarrow> error + (bool list \<times> flow)"

text \<open>Truth value of the tri-state \<open>filter['exported']\<close>: \<open>None\<close> and \<open>False\<close> are falsy.\<close>

definition truthy :: "bool option \<Rightarrow> bool" where
  "truthy v = (v = Some True)"

text \<open>Lines 239-248.\<close>

definition exported_block :: "nat \<Rightarrow> bool option \<Rightarrow> bool \<Rightarrow> bool list \<Rightarrow> bool list \<times> flow" where
  "exported_block indx crit file_exported yr =
     (if truthy crit then
        (if file_exported \<noteq> truthy crit then
           (if indx = 0 then (yr[indx := False], Break) else (yr, Next))
         else if file_exported = truthy crit then
           (if indx = 1 then (yr[indx := False], Break) else (yr, Next))
         else (yr, Next))
      else (yr, Next))"

text \<open>Lines 261-270, 283-292, 305-314: the \<open>min_\<close> keys, read at \<open>[-1]\<close>.\<close>

definition min_block :: "nat \<Rightarrow> int list \<Rightarrow> int \<Rightarrow> bool list \<Rightarrow> bool list \<times> flow" where
  "min_block indx bounds v yr =
     (if bounds \<noteq> [] then
        (if v < last bounds then
           (if indx = 0 then (yr[indx := False], Break) else (yr, Next))
         else if v \<ge> last bounds then
           (if indx = 1 then (yr[indx := False], Break) else (yr, Next))
         else (yr, Next))
      else (yr, Next))"

text \<open>Lines 272-281, 294-303, 316-325: the \<open>max_\<close> keys.\<close>

definition max_block :: "nat \<Rightarrow> int list \<Rightarrow> int \<Rightarrow> bool list \<Rightarrow> bool list \<times> flow" where
  "max_block indx bounds v yr =
     (if bounds \<noteq> [] then
        (if v > last bounds then
           (if indx = 0 then (yr[indx := False], Break) else (yr, Next))
         else if v \<le> last bounds then
           (if indx = 1 then (yr[indx := False], Break) else (yr, Next))
         else (yr, Next))
      else (yr, Next))"

text \<open>
  A \<open>for x in xs: if m(x): ...; break\<close> loop: \<open>Inr True\<close> when it was left by \<open>break\<close>,
  \<open>Inr False\<close> when it ran to its end (the \<open>else\<close> clause runs), \<open>Inl e\<close> when \<open>m\<close> raised.
\<close>

fun first_match :: "('a \<Rightarrow> error + bool) \<Rightarrow> 'a list \<Rightarrow> error + bool" where
  "first_match m [] = Inr False"
| "first_match m (x # xs) =
     (case m x of
        Inl e \<Rightarrow> Inl e
      | Inr b \<Rightarrow> if b then Inr True else first_match m xs)"

text \<open>
  Lines 250-259, 327-336, 352-394: the set keys. On a match the flag of the exclude pass
  is cleared and only the inner loop is left; the \<open>break\<close> of the \<open>else\<close> clause leaves the
  loop over the two filters.
\<close>

definition set_block :: "('a \<Rightarrow> error + bool) \<Rightarrow> nat \<Rightarrow> 'a list \<Rightarrow> block" where
  "set_block m indx xs yr =
     (case first_match m xs of
        Inl e \<Rightarrow> Inl e
      | Inr broke \<Rightarrow>
          if broke then Inr (if indx = 1 then yr[indx := False] else yr, Next)
          else if xs \<noteq> [] then
            (if indx = 0 then Inr (yr[indx := False], Break) else Inr (yr, Next))
          else Inr (yr, Next))"

text \<open>Lines 341-342: one item of a \<open>cattrs\<close> criterion against the file's dict.\<close>

definition cattr_item :: "matcher \<Rightarrow> (string \<times> string) list \<Rightarrow> string \<times> string \<Rightarrow> error + bool" where
  "cattr_item in_f fc kv =
     (case map_of fc (fst kv) of
        None \<Rightarrow> Inr False
      | Some s \<Rightarrow> in_f (snd kv) s)"

text \<open>
  Lines 339-350: the loop over \<open>filter['cattrs']\<close> (\<open>whole\<close> is that list, tested at line
  347). The \<open>break\<close> of line 345 leaves the loop over the items, and the loop over the
  criteria goes on; the \<open>else\<close> of line 346 belongs to the loop over the items, so its
  \<open>break\<close> leaves the loop over the criteria, not the loop over the two filters.
\<close>

fun cattrs_loop ::
  "matcher \<Rightarrow> nat \<Rightarrow> (string \<times> string) list \<Rightarrow> (string \<times> string) list list \<Rightarrow>
   (string \<times> string) list list \<Rightarrow> bool list \<Rightarrow> error + bool list" where
  "cattrs_loop in_f indx fc whole [] yr = Inr yr"
| "cattrs_loop in_f indx fc whole (cattr # rest) yr =
     (case first_match (cattr_item in_f fc) cattr of
        Inl e \<Rightarrow> Inl e
      | Inr broke \<Rightarrow>
          if broke then
            cattrs_loop in_f indx fc whole rest (if indx = 1 then yr[indx := False] else yr)
          else if whole \<noteq> [] then
            (if indx = 0 then Inr (yr[indx := False])
             else cattrs_loop in_f indx fc whole rest yr)
          else cattrs_loop in_f indx fc whole rest yr)"

definition cattrs_block ::
  "matcher \<Rightarrow> nat \<Rightarrow> bool \<Rightarrow> (string \<times> string) list \<Rightarrow> (string \<times> string) list list \<Rightarrow> block" where
  "cattrs_block in_f indx file_has_cattrs fc crit yr =
     (if file_has_cattrs then
        (case cattrs_loop in_f indx fc crit crit yr of
           Inl e \<Rightarrow> Inl e
         | Inr yr' \<Rightarrow> Inr (yr', Next))
      else Inr (yr, Next))"

text \<open>Blocks in sequence: an exception or a \<open>Break\<close> ends the pass.\<close>

fun run_blocks :: "block list \<Rightarrow> block" where
  "run_blocks [] yr = Inr (yr, Next)"
| "run_blocks (b # bs) yr =
     (case b yr of
        Inl e \<Rightarrow> Inl e
      | Inr (yr', fl) \<Rightarrow> (case fl of Break \<Rightarrow> Inr (yr', Break) | Next \<Rightarrow> run_blocks bs yr'))"

text \<open>Lines 239-394: the body of the loop over the two filters, for one of them.\<close>

definition filter_body :: "matcher \<Rightarrow> nat \<Rightarrow> filters \<Rightarrow> box_file \<Rightarrow> int \<Rightarrow> block" where
  "filter_body in_f indx flt f fsz =
     run_blocks
       [\<lambda>yr. Inr (exported_block indx (flt_exported flt) (exported f) yr),
        set_block (\<lambda>p. in_f p (mime f)) indx (flt_mime flt),
        \<lambda>yr. Inr (min_block indx (flt_min_time flt) (upload_time f) yr),
        \<lambda>yr. Inr (max_block indx (flt_max_time flt) (upload_time f) yr),
        \<lambda>yr. Inr (min_block indx (flt_min_size flt) fsz yr),
        \<lambda>yr. Inr (max_block indx (flt_max_size flt) fsz yr),
        \<lambda>yr. Inr (min_block indx (flt_min_id flt) (id' f) yr),
        \<lambda>yr. Inr (max_block indx (flt_max_id flt) (id' f) yr),
        set_block (\<lambda>i. Inr (id' f = i)) indx (flt_id flt),
        cattrs_block in_f indx (has_cattrs f) (cattrs f) (flt_cattrs flt),
        set_block (\<lambda>p. in_f p (file_path f)) indx (flt_file_path flt),
        set_block (\<lambda>p. in_f p (file_name f)) indx (flt_file_name flt),
        set_block (\<lambda>p. in_f p (file_salt f)) indx (flt_file_salt flt),
        set_block (\<lambda>v. Inr (v = verbyte f)) indx (flt_verbyte flt)]"

text \<open>Line 238: \<open>for indx, filter in enumerate((sf.in_filters, sf.ex_filters))\<close>.\<close>

fun for_filters :: "matcher \<Rightarrow> box_file \<Rightarrow> int \<Rightarrow> (nat \<times> filters) list \<Rightarrow> bool list \<Rightarrow> error + bool list" where
  "for_filters in_f f fsz [] yr = Inr yr"
| "for_filters in_f f fsz ((indx, flt) # rest) yr =
     (case filter_body in_f indx flt f fsz yr of
        Inl e \<Rightarrow> Inl e
      | Inr (yr', fl) \<Rightarrow> (case fl of Break \<Rightarrow> Inr yr' | Next \<Rightarrow> for_filters in_f f fsz rest yr'))"

text \<open>Lines 236-396: the flags from \<open>[True, True]\<close>, then \<open>all(yield_result)\<close>.\<close>

definition evaluate :: "matcher \<Rightarrow> search_filter \<Rightarrow> box_file \<Rightarrow> int \<Rightarrow> error + bool" where
  "evaluate in_f sf f fsz =
     (case for_filters in_f f fsz (enumerate 0 [in_filters sf, ex_filters sf]) [True, True] of
        Inl e \<Rightarrow> Inl e
      | Inr yield_result \<Rightarrow> Inr (list_all (\<lambda>b. b) yield_result))"

text \<open>
  Lines 225-399: the body of \<open>async for file in iter_from\<close>. \<open>Inr True\<close>: the file is
  yielded; \<open>Inr False\<close>: the loop continues without a yield.
\<close>

definition loop_body :: "matcher \<Rightarrow> search_filter \<Rightarrow> box_file \<Rightarrow> error + bool" where
  "loop_body in_f sf f =
     (if has_message f then evaluate in_f sf f (file_size f)
      else if has_tgbox_db f then evaluate in_f sf f (size' f)
      else Inr False)"

subsection \<open>The generator\<close>

text \<open>
  What a consumer that pulls until the end sees of a generator: the elements yielded, in
  order, and the exception that ended it, if one did.
\<close>

type_synonym generated = "box_file list \<times> error option"

fun async_for :: "(box_file \<Rightarrow> error + bool) \<Rightarrow> box_file list \<Rightarrow> generated" where
  "async_for body [] = ([], None)"
| "async_for body (f # fs) =
     (case body f of
        Inl e \<Rightarrow> ([], Some e)
      | Inr y \<Rightarrow> (let r = async_for body fs in ((if y then f # fst r else fst r), snd r)))"

text \<open>A generator object has no \<open>__bool__\<close> and no \<open>__len__\<close>: it is truthy.\<close>

definition gen_truthy :: "box_file list \<Rightarrow> bool" where
  "gen_truthy g = True"

text \<open>Lines 217-218: the id window handed to \<open>lb.files\<close>.\<close>

definition id_window :: "search_filter \<Rightarrow> int option \<times> int option" where
  "id_window sf =
     (if flt_min_id (in_filters sf) \<noteq> [] then Some (last (flt_min_id (in_filters sf))) else None,
      if flt_max_id (in_filters sf) \<noteq> [] then Some (last (flt_max_id (in_filters sf))) else None)"

text \<open>
  Lines 212-399. \<open>it_messages\<close> is \<open>None\<close> or a generator, given by the elements it
  produces; \<open>lb\<close> is \<open>None\<close> or a box, given by its method \<open>files\<close>. Nothing of the body
  runs before the first pull, so an exception raised before the loop is the first thing
  the consumer sees.
\<close>

definition search_generator ::
  "matcher \<Rightarrow> search_filter \<Rightarrow> box_file list option \<Rightarrow>
   (int option \<Rightarrow> int option \<Rightarrow> box_file list) option \<Rightarrow> generated" where
  "search_generator re_search sf it_messages lb =
     (case (case it_messages of
              Some g \<Rightarrow> Inr g
            | None \<Rightarrow>
                (case lb of
                   None \<Rightarrow> Inl AttributeError
                 | Some files \<Rightarrow> Inr (files (fst (id_window sf)) (snd (id_window sf))))) of
        Inl e \<Rightarrow> ([], Some e)
      | Inr iter_from \<Rightarrow>
          if \<not> gen_truthy iter_from then ([], Some ValueError)
          else async_for (loop_body (in_func re_search sf) sf) iter_from)"

subsection \<open>The test of one field\<close>

text \<open>
  A field's test is its block run alone on fresh flags: the test is passed when no flag
  is cleared. A block that raises passes nothing.
\<close>

definition passes :: "error + (bool list \<times> flow) \<Rightarrow> bool" where
  "passes r = (case r of Inl e \<Rightarrow> False | Inr p \<Rightarrow> list_all (\<lambda>b. b) (fst p))"

definition exported_test :: "nat \<Rightarrow> bool option \<Rightarrow> bool \<Rightarrow> bool" where
  "exported_test indx crit v = passes (Inr (exported_block indx crit v [True, True]))"

definition min_test :: "nat \<Rightarrow> int list \<Rightarrow> int \<Rightarrow> bool" where
  "min_test indx bounds v = passes (Inr (min_block indx bounds v [True, True]))"

definition max_test :: "nat \<Rightarrow> int list \<Rightarrow> int \<Rightarrow> bool" where
  "max_test indx bounds v = passes (Inr (max_block indx bounds v [True, True]))"

definition set_test :: "('a \<Rightarrow> error + bool) \<Rightarrow> nat \<Rightarrow> 'a list \<Rightarrow> bool" where
  "set_test m indx xs = passes (set_block m indx xs [True, True])"

definition cattrs_test ::
  "matcher \<Rightarrow> nat \<Rightarrow> bool \<Rightarrow> (string \<times> string) list \<Rightarrow> (string \<times> string) list list \<Rightarrow> bool" where
  "cattrs_test in_f indx hc fc crit = passes (cattrs_block in_f indx hc fc crit [True, True])"

subsection \<open>Well-formed criteria\<close>

text \<open>
  The values that reach \<open>in_func\<close> as a pattern: the entries of the string keys and the
  values of the \<open>cattrs\<close> criteria. A pattern compiles when the matcher raises on no
  string; a search filter is well-formed for a matcher when all its patterns compile.
  With \<open>p in s\<close> every search filter is well-formed.
\<close>

definition patterns :: "filters \<Rightarrow> string list" where
  "patterns flt =
     flt_mime flt @ map snd (concat (flt_cattrs flt)) @ flt_file_path flt @
     flt_file_name flt @ flt_file_salt flt"

definition compiles :: "matcher \<Rightarrow> string \<Rightarrow> bool" where
  "compiles in_f p = (\<forall>s. \<exists>b. in_f p s = Inr b)"

definition well_formed :: "matcher \<Rightarrow> search_filter \<Rightarrow> bool" where
  "well_formed in_f sf =
     (\<forall>p \<in> set (patterns (in_filters sf) @ patterns (ex_filters sf)). compiles in_f p)"

text \<open>The tests of one pass, in the order of the blocks of \<open>filter_body\<close>.\<close>

definition field_tests :: "matcher \<Rightarrow> nat \<Rightarrow> filters \<Rightarrow> box_file \<Rightarrow> int \<Rightarrow> bool list" where
  "field_tests in_f indx flt f fsz =
     [exported_test indx (flt_exported flt) (exported f),
      set_test (\<lambda>p. in_f p (mime f)) indx (flt_mime flt),
      min_test indx (flt_min_time flt) (upload_time f),
      max_test indx (flt_max_time flt) (upload_time f),
      min_test indx (flt_min_size flt) fsz,
      max_test indx (flt_max_size flt) fsz,
      min_test indx (flt_min_id flt) (id' f),
      max_test indx (flt_max_id flt) (id' f),
      set_test (\<lambda>i. Inr (id' f = i)) indx (flt_id flt),
      cattrs_test in_f indx (has_cattrs f) (cattrs f) (flt_cattrs flt),
      set_test (\<lambda>p. in_f p (file_path f)) indx (flt_file_path flt),
      set_test (\<lambda>p. in_f p (file_name f)) indx (flt_file_name flt),
      set_test (\<lambda>p. in_f p (file_salt f)) indx (flt_file_salt flt),
      set_test (\<lambda>v. Inr (v = verbyte f)) indx (flt_verbyte flt)]"

text \<open>
  A block behaves as a test \<open>t\<close> in pass \<open>indx\<close>: where the test is passed the flags stay
  and the next block runs, where it is failed the flag of the pass is cleared.
\<close>

definition behaves :: "nat \<Rightarrow> block \<Rightarrow> bool \<Rightarrow> bool" where
  "behaves indx b t =
     (\<forall>yr. length yr = 2 \<longrightarrow>
        (if t then b yr = Inr (yr, Next) else (\<exists>fl. b yr = Inr (yr[indx := False], fl))))"

text \<open>
  The spec's reading of a range key: of a list of bounds only the last counts.
\<close>

definition effective :: "int list \<Rightarrow> int list" where
  "effective bs = (if bs = [] then [] else [last bs])"

definition effective_ranges :: "filters \<Rightarrow> filters" where
  "effective_ranges flt =
     flt\<lparr>flt_min_time := effective (flt_min_time flt),
         flt_max_time := effective (flt_max_time flt),
         flt_min_size := effective (flt_min_size flt),
         flt_max_size := effective (flt_max_size flt),
         flt_min_id := effective (flt_min_id flt),
         flt_max_id := effective (flt_max_id flt)\<rparr>"

subsection \<open>Inputs for concrete runs\<close>

text \<open>A filter dict with no criterion, and files of the two kinds.\<close>

definition empty_filters :: filters where
  "empty_filters =
     \<lparr>flt_re = False, flt_exported = None, flt_mime = [], flt_min_time = [],
      flt_max_time = [], flt_min_size = [], flt_max_size = [], flt_min_id = [],
      flt_max_id = [], flt_id = [], flt_cattrs = [], flt_file_path = [],
      flt_file_name = [], flt_file_salt = [], flt_verbyte = []\<rparr>"

definition remote_file :: box_file where
  "remote_file =
     \<lparr>has_message = True, has_tgbox_db = False, has_cattrs = False, file_size = 100,
      size' = 0, exported = False, mime = ''image/jpeg'', upload_time = 1500, id' = 7,
      cattrs = [], file_path = ''/home/docs'', file_name = ''a.jpg'', file_salt = ''s1'',
      verbyte = ''1''\<rparr>"

definition local_file :: box_file where
  "local_file =
     \<lparr>has_message = False, has_tgbox_db = True, has_cattrs = True, file_size = 0,
      size' = 200, exported = False, mime = ''text/plain'', upload_time = 2000, id' = 8,
      cattrs = [(''b'', ''y'')], file_path = ''/home/notes'', file_name = ''b.txt'',
      file_salt = ''s2'', verbyte = ''1''\<rparr>"

text \<open>
  An instance of \<open>re.search\<close> for concrete runs. On a pattern without regex
  metacharacters \<open>re.search(p, s)\<close> is truthy exactly when \<open>p\<close> occurs in \<open>s\<close>; the
  pattern \<open>(\<close> does not compile (unterminated subpattern) and raises \<open>re.error\<close>. The
  instance is applied to such patterns only.
\<close>

definition re_search_lit :: matcher where
  "re_search_lit p s = (if p = ''('' then Inl ReError else Inr (sublist p s))"

text \<open>Criteria for concrete runs.\<close>

definition bad_name_filter :: search_filter where
  "bad_name_filter =
     \<lparr>in_filters = empty_filters\<lparr>flt_re := True, flt_file_name := [''jpg'', ''('']\<rparr>,
      ex_filters = empty_filters\<rparr>"

definition two_cattrs_filter :: search_filter where
  "two_cattrs_filter =
     \<lparr>in_filters = empty_filters\<lparr>flt_cattrs := [[(''a'', ''x'')], [(''b'', ''y'')]]\<rparr>,
      ex_filters = empty_filters\<rparr>"

section \<open>Properties\<close>

subsection \<open>Blocks as tests\<close>

lemma two_flags: "length yr = 2 \<Longrightarrow> \<exists>a b. yr = [a, b]"
  by (cases yr; cases "tl yr") auto

lemma indx01: "indx < 2 \<Longrightarrow> indx = 0 \<or> indx = Suc 0"
  by auto

lemma behaves_exported:
  "indx < 2 \<Longrightarrow> behaves indx (\<lambda>yr. Inr (exported_block indx c e yr)) (exported_test indx c e)"
  unfolding behaves_def exported_test_def passes_def
  using indx01[of indx] by (auto simp: exported_block_def dest!: two_flags)

lemma behaves_min:
  "indx < 2 \<Longrightarrow> behaves indx (\<lambda>yr. Inr (min_block indx bs v yr)) (min_test indx bs v)"
  unfolding behaves_def min_test_def passes_def
  using indx01[of indx] by (auto simp: min_block_def dest!: two_flags)

lemma behaves_max:
  "indx < 2 \<Longrightarrow> behaves indx (\<lambda>yr. Inr (max_block indx bs v yr)) (max_test indx bs v)"
  unfolding behaves_def max_test_def passes_def
  using indx01[of indx] by (auto simp: max_block_def dest!: two_flags)

lemma first_match_total:
  "\<forall>x \<in> set xs. \<exists>b. m x = Inr b \<Longrightarrow> first_match m xs = Inr (\<exists>x \<in> set xs. m x = Inr True)"
  by (induction xs) (auto split: sum.splits)

lemma behaves_set:
  assumes "\<forall>x \<in> set xs. \<exists>b. m x = Inr b" and "indx < 2"
  shows "behaves indx (set_block m indx xs) (set_test m indx xs)"
proof -
  have i: "indx = 0 \<or> indx = Suc 0" using assms(2) by auto
  show ?thesis
    unfolding behaves_def set_test_def passes_def set_block_def
    using i by (auto simp: first_match_total[OF assms(1)] dest!: two_flags)
qed


lemma cattrs_loop_include:
  assumes "\<forall>c \<in> set cs. \<exists>b. first_match (cattr_item in_f fc) c = Inr b"
  shows "cattrs_loop in_f 0 fc whole cs yr =
           Inr (if whole = [] \<or> (\<forall>c \<in> set cs. first_match (cattr_item in_f fc) c = Inr True)
                then yr else yr[0 := False])"
  using assms by (induction cs arbitrary: yr) (auto split: sum.splits)

lemma cattrs_loop_exclude:
  assumes "\<forall>c \<in> set cs. \<exists>b. first_match (cattr_item in_f fc) c = Inr b"
  shows "cattrs_loop in_f (Suc 0) fc whole cs yr =
           Inr (if \<forall>c \<in> set cs. first_match (cattr_item in_f fc) c \<noteq> Inr True
                then yr else yr[Suc 0 := False])"
  using assms by (induction cs arbitrary: yr) (auto split: sum.splits)

lemma behaves_cattrs:
  assumes "\<forall>c \<in> set cs. \<exists>b. first_match (cattr_item in_f fc) c = Inr b" and "indx < 2"
  shows "behaves indx (cattrs_block in_f indx hc fc cs) (cattrs_test in_f indx hc fc cs)"
  unfolding behaves_def cattrs_test_def passes_def cattrs_block_def
  using indx01[OF assms(2)]
  by (auto simp: cattrs_loop_include[OF assms(1)] cattrs_loop_exclude[OF assms(1)]
           split: if_splits dest!: two_flags)

lemma run_blocks_behaves:
  assumes "list_all2 (behaves indx) bs ts" and "length yr = 2"
  shows "\<exists>fl. run_blocks bs yr = Inr (if list_all (\<lambda>t. t) ts then yr else yr[indx := False], fl)
              \<and> (list_all (\<lambda>t. t) ts \<longrightarrow> fl = Next)"
  using assms
proof (induction bs ts arbitrary: yr rule: list_all2_induct)
  case Nil
  then show ?case by simp
next
  case (Cons b bs t ts)
  show ?case
  proof (cases t)
    case True
    with Cons.hyps(1) Cons.prems have "b yr = Inr (yr, Next)" by (simp add: behaves_def)
    with Cons.IH[OF Cons.prems] True show ?thesis by simp
  next
    case False
    with Cons.hyps(1) Cons.prems obtain fl where b: "b yr = Inr (yr[indx := False], fl)"
      by (auto simp: behaves_def)
    have len: "length (yr[indx := False]) = 2" using Cons.prems by simp
    from Cons.IH[OF len] obtain fl' where
      r: "run_blocks bs (yr[indx := False]) = Inr (yr[indx := False], fl')"
      by (auto split: if_splits)
    show ?thesis using b r False by (cases fl) auto
  qed
qed


lemma compiles_item:
  assumes "\<forall>p \<in> set (map snd (concat cs)). compiles in_f p" and "c \<in> set cs"
  shows "\<exists>b. first_match (cattr_item in_f fc) c = Inr b"
proof -
  have "\<forall>kv \<in> set c. \<exists>b. cattr_item in_f fc kv = Inr b"
  proof
    fix kv assume kv: "kv \<in> set c"
    with assms have "compiles in_f (snd kv)" by auto
    then show "\<exists>b. cattr_item in_f fc kv = Inr b"
      by (auto simp: cattr_item_def compiles_def split: option.splits)
  qed
  then show ?thesis by (simp add: first_match_total)
qed

lemma filter_body_tests:
  assumes wf: "\<forall>p \<in> set (patterns flt). compiles in_f p" and i: "indx < 2" and len: "length yr = 2"
  shows "\<exists>fl. filter_body in_f indx flt f fsz yr =
                Inr (if list_all (\<lambda>t. t) (field_tests in_f indx flt f fsz) then yr
                     else yr[indx := False], fl)
              \<and> (list_all (\<lambda>t. t) (field_tests in_f indx flt f fsz) \<longrightarrow> fl = Next)"
proof -
  have c: "\<And>p s. p \<in> set (patterns flt) \<Longrightarrow> \<exists>b. in_f p s = Inr b"
    using wf by (auto simp: compiles_def)
  have m1: "\<forall>x \<in> set (flt_mime flt). \<exists>b. in_f x (mime f) = Inr b"
    using c by (simp add: patterns_def)
  have m2: "\<forall>x \<in> set (flt_file_path flt). \<exists>b. in_f x (file_path f) = Inr b"
    using c by (simp add: patterns_def)
  have m3: "\<forall>x \<in> set (flt_file_name flt). \<exists>b. in_f x (file_name f) = Inr b"
    using c by (simp add: patterns_def)
  have m4: "\<forall>x \<in> set (flt_file_salt flt). \<exists>b. in_f x (file_salt f) = Inr b"
    using c by (simp add: patterns_def)
  have "\<forall>p \<in> set (map snd (concat (flt_cattrs flt))). compiles in_f p"
    using wf by (simp add: patterns_def)
  then have m5: "\<forall>c \<in> set (flt_cattrs flt). \<exists>b. first_match (cattr_item in_f (cattrs f)) c = Inr b"
    using compiles_item by blast
  have "list_all2 (behaves indx)
         [\<lambda>yr. Inr (exported_block indx (flt_exported flt) (exported f) yr),
          set_block (\<lambda>p. in_f p (mime f)) indx (flt_mime flt),
          \<lambda>yr. Inr (min_block indx (flt_min_time flt) (upload_time f) yr),
          \<lambda>yr. Inr (max_block indx (flt_max_time flt) (upload_time f) yr),
          \<lambda>yr. Inr (min_block indx (flt_min_size flt) fsz yr),
          \<lambda>yr. Inr (max_block indx (flt_max_size flt) fsz yr),
          \<lambda>yr. Inr (min_block indx (flt_min_id flt) (id' f) yr),
          \<lambda>yr. Inr (max_block indx (flt_max_id flt) (id' f) yr),
          set_block (\<lambda>i. Inr (id' f = i)) indx (flt_id flt),
          cattrs_block in_f indx (has_cattrs f) (cattrs f) (flt_cattrs flt),
          set_block (\<lambda>p. in_f p (file_path f)) indx (flt_file_path flt),
          set_block (\<lambda>p. in_f p (file_name f)) indx (flt_file_name flt),
          set_block (\<lambda>p. in_f p (file_salt f)) indx (flt_file_salt flt),
          set_block (\<lambda>v. Inr (v = verbyte f)) indx (flt_verbyte flt)]
         (field_tests in_f indx flt f fsz)"
    unfolding field_tests_def
    by (simp add: behaves_exported behaves_min behaves_max behaves_set behaves_cattrs
                  i m1 m2 m3 m4 m5)
  from run_blocks_behaves[OF this len] show ?thesis
    unfolding filter_body_def .
qed

lemma evaluate_conj:
  assumes "well_formed in_f sf"
  shows "evaluate in_f sf f fsz =
           Inr (list_all (\<lambda>t. t) (field_tests in_f 0 (in_filters sf) f fsz) \<and>
                list_all (\<lambda>t. t) (field_tests in_f 1 (ex_filters sf) f fsz))"
proof -
  let ?I = "list_all (\<lambda>t. t) (field_tests in_f 0 (in_filters sf) f fsz)"
  let ?E = "list_all (\<lambda>t. t) (field_tests in_f 1 (ex_filters sf) f fsz)"
  have wi: "\<forall>p \<in> set (patterns (in_filters sf)). compiles in_f p"
    and we: "\<forall>p \<in> set (patterns (ex_filters sf)). compiles in_f p"
    using assms by (auto simp: well_formed_def)
  obtain fl where
    a: "filter_body in_f 0 (in_filters sf) f fsz [True, True] =
          Inr (if ?I then [True, True] else [False, True], fl)" and
    a': "?I \<longrightarrow> fl = Next"
    using filter_body_tests[OF wi, of 0 "[True, True]" f fsz] by auto
  have b: "\<And>yr. length yr = 2 \<Longrightarrow> \<exists>fl'. filter_body in_f 1 (ex_filters sf) f fsz yr =
          Inr (if ?E then yr else yr[1 := False], fl')"
    using filter_body_tests[OF we, of 1 _ f fsz] by auto
  show ?thesis
  proof (cases ?I)
    case True
    from b[of "[True, True]"] obtain fl' where
      "filter_body in_f 1 (ex_filters sf) f fsz [True, True] =
          Inr (if ?E then [True, True] else [True, False], fl')" by auto
    with a a' True show ?thesis
      by (cases fl') (auto simp: evaluate_def enumerate_eq_zip)
  next
    case False
    from b[of "[False, True]"] obtain fl' where
      "filter_body in_f 1 (ex_filters sf) f fsz [False, True] =
          Inr (if ?E then [False, True] else [False, False], fl')" by auto
    with a False show ?thesis
      by (cases fl; cases fl') (auto simp: evaluate_def enumerate_eq_zip)
  qed
qed


subsection \<open>The tests in closed form\<close>

lemma exported_test_iff:
  "exported_test 0 c e = (c \<noteq> Some True \<or> e)"
  "exported_test (Suc 0) c e = (c \<noteq> Some True \<or> \<not> e)"
  by (auto simp: exported_test_def exported_block_def passes_def truthy_def)

lemma min_test_iff:
  "min_test 0 bs v = (bs = [] \<or> last bs \<le> v)"
  "min_test (Suc 0) bs v = (bs = [] \<or> v < last bs)"
  by (auto simp: min_test_def min_block_def passes_def)

lemma max_test_iff:
  "max_test 0 bs v = (bs = [] \<or> v \<le> last bs)"
  "max_test (Suc 0) bs v = (bs = [] \<or> last bs < v)"
  by (auto simp: max_test_def max_block_def passes_def)

lemma set_test_iff:
  assumes "\<forall>x \<in> set xs. \<exists>b. m x = Inr b"
  shows "set_test m 0 xs = (xs = [] \<or> (\<exists>x \<in> set xs. m x = Inr True))"
    and "set_test m (Suc 0) xs = (\<not> (\<exists>x \<in> set xs. m x = Inr True))"
  by (auto simp: set_test_def set_block_def passes_def first_match_total[OF assms])

lemma set_test_Nil: "set_test m 0 [] = True" "set_test m (Suc 0) [] = True"
  by (simp_all add: set_test_def set_block_def passes_def)

lemma cattrs_test_Nil: "cattrs_test in_f 0 hc fc [] = True" "cattrs_test in_f (Suc 0) hc fc [] = True"
  by (simp_all add: cattrs_test_def cattrs_block_def passes_def)

lemma compiles_str_in: "compiles str_in p"
  by (simp add: compiles_def str_in_def)

lemma well_formed_str_in: "well_formed str_in sf"
  by (simp add: well_formed_def compiles_str_in)

lemma well_formed_no_patterns:
  "patterns (in_filters sf) = [] \<Longrightarrow> patterns (ex_filters sf) = [] \<Longrightarrow> well_formed in_f sf"
  by (simp add: well_formed_def)

lemmas test_simps =
  field_tests_def exported_test_iff min_test_iff max_test_iff set_test_Nil cattrs_test_Nil


subsection \<open>Unfolding for concrete runs\<close>

lemmas run_simps =
  evaluate_def enumerate_eq_zip filter_body_def exported_block_def set_block_def
  min_block_def max_block_def cattrs_block_def cattr_item_def truthy_def str_in_def
  sublist_Cons_right

subsection \<open>A failed test rejects\<close>

lemma length_field_tests: "length (field_tests in_f indx flt f fsz) = 14"
  by (simp add: field_tests_def)

lemma failed_test_rejects:
  assumes "well_formed in_f sf" and "i < 14"
    and "\<not> field_tests in_f 0 (in_filters sf) f fsz ! i \<or> \<not> field_tests in_f 1 (ex_filters sf) f fsz ! i"
  shows "evaluate in_f sf f fsz = Inr False"
proof -
  have "\<not> (list_all (\<lambda>t. t) (field_tests in_f 0 (in_filters sf) f fsz) \<and>
            list_all (\<lambda>t. t) (field_tests in_f 1 (ex_filters sf) f fsz))"
    using assms(2,3) by (auto simp: list_all_length length_field_tests)
  then show ?thesis by (simp add: evaluate_conj[OF assms(1)])
qed

subsection \<open>Only the last bound is read\<close>

lemma min_block_effective: "min_block indx (effective bs) = min_block indx bs"
  by (rule ext)+ (simp add: min_block_def effective_def)

lemma max_block_effective: "max_block indx (effective bs) = max_block indx bs"
  by (rule ext)+ (simp add: max_block_def effective_def)

lemma filter_body_effective:
  "filter_body in_f indx (effective_ranges flt) = filter_body in_f indx flt"
  by (rule ext)+
     (simp add: filter_body_def effective_ranges_def min_block_effective max_block_effective)

lemma for_filters_effective:
  "for_filters in_f f fsz (map (\<lambda>p. (fst p, effective_ranges (snd p))) xs) yr =
   for_filters in_f f fsz xs yr"
  by (induction xs arbitrary: yr)
     (auto simp: filter_body_effective split: sum.splits prod.splits flow.splits)

lemma evaluate_effective:
  "evaluate in_f
     (sf\<lparr>in_filters := effective_ranges (in_filters sf),
         ex_filters := effective_ranges (ex_filters sf)\<rparr>) = evaluate in_f sf"
proof (rule ext)+
  fix f fsz
  have "for_filters in_f f fsz
          [(0, effective_ranges (in_filters sf)), (Suc 0, effective_ranges (ex_filters sf))] [True, True] =
        for_filters in_f f fsz [(0, in_filters sf), (Suc 0, ex_filters sf)] [True, True]"
    using for_filters_effective[of in_f f fsz "[(0, in_filters sf), (Suc 0, ex_filters sf)]"]
    by simp
  then show "evaluate in_f
     (sf\<lparr>in_filters := effective_ranges (in_filters sf),
         ex_filters := effective_ranges (ex_filters sf)\<rparr>) f fsz = evaluate in_f sf f fsz"
    by (simp add: evaluate_def enumerate_eq_zip)
qed

lemma id_window_effective:
  "id_window (sf\<lparr>in_filters := effective_ranges (in_filters sf),
                 ex_filters := effective_ranges (ex_filters sf)\<rparr>) = id_window sf"
  by (simp add: id_window_def effective_ranges_def effective_def)

lemma in_func_effective:
  "in_func rs (sf\<lparr>in_filters := effective_ranges (in_filters sf),
                 ex_filters := effective_ranges (ex_filters sf)\<rparr>) = in_func rs sf"
  by (simp add: in_func_def effective_ranges_def)

lemma loop_body_effective:
  "loop_body in_f
     (sf\<lparr>in_filters := effective_ranges (in_filters sf),
         ex_filters := effective_ranges (ex_filters sf)\<rparr>) = loop_body in_f sf"
  by (rule ext) (simp add: loop_body_def evaluate_effective)

subsection \<open>The loop over the source\<close>

lemma search_generator_it:
  "search_generator rs sf (Some src) lb = async_for (loop_body (in_func rs sf) sf) src"
  by (simp add: search_generator_def gen_truthy_def)

lemma search_generator_lb:
  "search_generator rs sf None (Some files) =
     async_for (loop_body (in_func rs sf) sf) (files (fst (id_window sf)) (snd (id_window sf)))"
  by (simp add: search_generator_def gen_truthy_def)

lemma search_generator_none:
  "search_generator rs sf None None = ([], Some AttributeError)"
  by (simp add: search_generator_def)

lemma async_for_skip:
  "body f = Inr False \<Longrightarrow> async_for body (pre @ f # post) = async_for body (pre @ post)"
  by (induction pre) (auto split: sum.splits)

lemma async_for_yields:
  "g \<in> set (fst (async_for body fs)) \<Longrightarrow> body g = Inr True"
  by (induction fs) (auto simp: Let_def split: sum.splits if_splits)

lemma async_for_total:
  "\<forall>f \<in> set fs. \<exists>b. body f = Inr b \<Longrightarrow>
   async_for body fs = (filter (\<lambda>f. body f = Inr True) fs, None)"
  by (induction fs) (auto simp: Let_def)

lemma async_for_raised:
  "async_for body fs = (ys, Some e) \<Longrightarrow>
   \<exists>pre f post. fs = pre @ f # post \<and> body f = Inl e \<and>
     (\<forall>g \<in> set pre. \<exists>b. body g = Inr b) \<and> ys = filter (\<lambda>g. body g = Inr True) pre"
proof (induction fs arbitrary: ys)
  case Nil
  then show ?case by simp
next
  case (Cons a fs)
  show ?case
  proof (cases "body a")
    case (Inl e')
    with Cons.prems have "ys = []" "e' = e" by auto
    with Inl show ?thesis by (intro exI[of _ "[]"] exI[of _ a] exI[of _ fs]) simp
  next
    case (Inr y)
    obtain zs t where r: "async_for body fs = (zs, t)" by (cases "async_for body fs")
    with Cons.prems Inr have t: "t = Some e" and ys: "ys = (if y then a # zs else zs)"
      by (auto simp: Let_def)
    from Cons.IH[OF r[unfolded t]] obtain pre f post where
      p: "fs = pre @ f # post" "body f = Inl e" "\<forall>g \<in> set pre. \<exists>b. body g = Inr b"
         "zs = filter (\<lambda>g. body g = Inr True) pre" by blast
    show ?thesis
      using p Inr ys by (intro exI[of _ "a # pre"] exI[of _ f] exI[of _ post]) auto
  qed
qed

lemma loop_body_total:
  "well_formed in_f sf \<Longrightarrow> \<exists>b. loop_body in_f sf f = Inr b"
  by (auto simp: loop_body_def evaluate_conj)

lemma search_generator_yields:
  "g \<in> set (fst (search_generator rs sf it_messages lb)) \<Longrightarrow>
   loop_body (in_func rs sf) sf g = Inr True"
  by (cases it_messages; cases lb)
     (auto simp: search_generator_it search_generator_lb search_generator_none
           dest: async_for_yields)

subsection \<open>Files without custom attributes\<close>

lemma cattrs_block_absent: "cattrs_block in_f indx False fc crit = (\<lambda>yr. Inr (yr, Next))"
  by (rule ext) (simp add: cattrs_block_def)

lemma filter_body_no_cattrs:
  "\<not> has_cattrs f \<Longrightarrow>
   filter_body in_f indx (flt\<lparr>flt_cattrs := c\<rparr>) f fsz = filter_body in_f indx flt f fsz"
  by (simp add: filter_body_def cattrs_block_absent)

lemma for_filters_no_cattrs:
  "\<not> has_cattrs f \<Longrightarrow>
   for_filters in_f f fsz (map (\<lambda>p. (fst p, (snd p)\<lparr>flt_cattrs := []\<rparr>)) xs) yr =
   for_filters in_f f fsz xs yr"
  by (induction xs arbitrary: yr)
     (auto simp: filter_body_no_cattrs split: sum.splits prod.splits flow.splits)

lemma evaluate_no_cattrs:
  assumes "\<not> has_cattrs f"
  shows "evaluate in_f (sf\<lparr>in_filters := (in_filters sf)\<lparr>flt_cattrs := []\<rparr>,
                           ex_filters := (ex_filters sf)\<lparr>flt_cattrs := []\<rparr>\<rparr>) f fsz =
         evaluate in_f sf f fsz"
  using for_filters_no_cattrs[OF assms, of in_f fsz "[(0, in_filters sf), (Suc 0, ex_filters sf)]"]
  by (simp add: evaluate_def enumerate_eq_zip)

section \<open>The claims\<close>

subsection \<open>The decision is a conjunction of field tests\<close>

text \<open>
  C1. For a well-formed search filter (every pattern compiles under the selected
  matcher, which is always so with \<open>p in s\<close>) the evaluator returns the conjunction of
  the fourteen tests of the include pass and the fourteen tests of the exclude pass.
  Each test of \<open>field_tests\<close> reads one key of the filter and the file, and nothing of
  another test. In particular a file that fails the test of a field is rejected under
  every well-formed search filter that leaves this test as it is, whatever it holds for
  the other fields.
\<close>

theorem evaluate_is_conjunction:
  assumes "well_formed in_f sf"
  shows "evaluate in_f sf f fsz =
           Inr (list_all (\<lambda>t. t) (field_tests in_f 0 (in_filters sf) f fsz) \<and>
                list_all (\<lambda>t. t) (field_tests in_f 1 (ex_filters sf) f fsz)) \<and>
         (\<forall>sf' i. well_formed in_f sf' \<longrightarrow> i < 14 \<longrightarrow>
            \<not> field_tests in_f 0 (in_filters sf) f fsz ! i \<longrightarrow>
            field_tests in_f 0 (in_filters sf') f fsz ! i =
              field_tests in_f 0 (in_filters sf) f fsz ! i \<longrightarrow>
            evaluate in_f sf' f fsz = Inr False) \<and>
         (\<forall>sf' i. well_formed in_f sf' \<longrightarrow> i < 14 \<longrightarrow>
            \<not> field_tests in_f 1 (ex_filters sf) f fsz ! i \<longrightarrow>
            field_tests in_f 1 (ex_filters sf') f fsz ! i =
              field_tests in_f 1 (ex_filters sf) f fsz ! i \<longrightarrow>
            evaluate in_f sf' f fsz = Inr False)"
  using evaluate_conj[OF assms] failed_test_rejects by simp

text \<open>A file with id 7 under \<open>min_id = [5, 10]\<close>, alone and with further criteria.\<close>

theorem evaluate_is_conjunction_witness:
  "well_formed str_in \<lparr>in_filters = empty_filters\<lparr>flt_min_id := [5, 10]\<rparr>, ex_filters = empty_filters\<rparr> \<and>
   evaluate str_in \<lparr>in_filters = empty_filters\<lparr>flt_min_id := [5, 10]\<rparr>, ex_filters = empty_filters\<rparr>
     remote_file 100 = Inr False \<and>
   evaluate str_in
     \<lparr>in_filters = empty_filters\<lparr>flt_min_id := [5, 10], flt_mime := [''image/jpeg'']\<rparr>,
      ex_filters = empty_filters\<lparr>flt_max_size := [50]\<rparr>\<rparr>
     remote_file 100 = Inr False"
proof -
  let ?sf = "\<lparr>in_filters = empty_filters\<lparr>flt_min_id := [5, 10]\<rparr>, ex_filters = empty_filters\<rparr>"
  let ?sf' = "\<lparr>in_filters = empty_filters\<lparr>flt_min_id := [5, 10], flt_mime := [''image/jpeg'']\<rparr>,
      ex_filters = empty_filters\<lparr>flt_max_size := [50]\<rparr>\<rparr>"
  have wf: "well_formed str_in ?sf" by (rule well_formed_str_in)
  note T = evaluate_is_conjunction[OF wf, of remote_file 100]
  have a: "evaluate str_in ?sf remote_file 100 = Inr False"
    using T[THEN conjunct1]
    by (simp add: test_simps empty_filters_def remote_file_def)
  have b: "evaluate str_in ?sf' remote_file 100 = Inr False"
    using T[THEN conjunct2, THEN conjunct1, rule_format, of ?sf' 6]
    by (simp add: well_formed_str_in test_simps empty_filters_def remote_file_def)
  show ?thesis using wf a b by simp
qed

subsection \<open>The \<open>exported\<close> criterion\<close>

text \<open>
  C3, as the code has it. The criterion is read for its truth value (line 239), so it
  constrains only when it is true: included, it accepts exactly the exported files;
  excluded, it rejects exactly the exported files. Unset or false, it constrains
  nothing, in both passes.
\<close>

theorem exported_true_only:
  "exported_test 0 (Some True) e = e \<and> exported_test 1 (Some True) e = (\<not> e) \<and>
   exported_test 0 None e \<and> exported_test 1 None e \<and>
   exported_test 0 (Some False) e \<and> exported_test 1 (Some False) e \<and>
   evaluate in_f \<lparr>in_filters = empty_filters\<lparr>flt_exported := Some True\<rparr>, ex_filters = empty_filters\<rparr>
     f fsz = Inr (exported f) \<and>
   evaluate in_f \<lparr>in_filters = empty_filters, ex_filters = empty_filters\<lparr>flt_exported := Some True\<rparr>\<rparr>
     f fsz = Inr (\<not> exported f) \<and>
   evaluate in_f \<lparr>in_filters = empty_filters\<lparr>flt_exported := c\<rparr>,
                  ex_filters = empty_filters\<lparr>flt_exported := c'\<rparr>\<rparr>
     f fsz = Inr ((c = Some True \<longrightarrow> exported f) \<and> (c' = Some True \<longrightarrow> \<not> exported f))"
  by (auto simp add: evaluate_conj well_formed_no_patterns test_simps empty_filters_def patterns_def)

theorem exported_true_only_witness:
  "exported_test 0 (Some True) True \<and> \<not> exported_test 1 (Some True) True \<and>
   exported_test 0 (Some False) True \<and> exported_test 1 (Some False) False \<and>
   evaluate str_in \<lparr>in_filters = empty_filters, ex_filters = empty_filters\<lparr>flt_exported := Some True\<rparr>\<rparr>
     local_file 200 = Inr True"
  using exported_true_only[of True str_in local_file 200]
        exported_true_only[of False str_in local_file 200]
  by (simp add: local_file_def)

text \<open>
  C3 as stated fails at \<open>b = False\<close>: with \<open>exported\<close> included as false an exported
  file passes the test, and with \<open>exported\<close> excluded as false a file that is not
  exported passes it; both files are accepted.
\<close>

theorem exported_false_is_no_constraint:
  "exported_test 0 (Some False) True \<and> exported_test 1 (Some False) False \<and>
   evaluate str_in \<lparr>in_filters = empty_filters\<lparr>flt_exported := Some False\<rparr>, ex_filters = empty_filters\<rparr>
     (remote_file\<lparr>exported := True\<rparr>) 100 = Inr True \<and>
   evaluate str_in \<lparr>in_filters = empty_filters, ex_filters = empty_filters\<lparr>flt_exported := Some False\<rparr>\<rparr>
     (remote_file\<lparr>exported := False\<rparr>) 100 = Inr True"
  by (simp add: exported_test_def passes_def run_simps empty_filters_def remote_file_def)

subsection \<open>Only the last bound of a range key counts\<close>

text \<open>
  C4. Replacing every list of bounds of the six range keys, in both filters, by the
  list of its last element changes nothing of what the generator produces, from a given
  sequence and from a local box (the id window handed to \<open>lb.files\<close> included); the
  tests of a non-empty list are those of its last bound, and the window holds the last
  bounds. With \<open>min_id = [5, 10]\<close> included a file with id 7 is rejected.
\<close>

theorem last_bound_effective:
  "search_generator re_search
     (sf\<lparr>in_filters := effective_ranges (in_filters sf),
         ex_filters := effective_ranges (ex_filters sf)\<rparr>) it_messages lb =
   search_generator re_search sf it_messages lb \<and>
   (bs \<noteq> [] \<longrightarrow>
      min_test indx bs v = min_test indx [last bs] v \<and>
      max_test indx bs v = max_test indx [last bs] v) \<and>
   (flt_min_id (in_filters sf) \<noteq> [] \<longrightarrow>
      fst (id_window sf) = Some (last (flt_min_id (in_filters sf)))) \<and>
   (flt_max_id (in_filters sf) \<noteq> [] \<longrightarrow>
      snd (id_window sf) = Some (last (flt_max_id (in_filters sf)))) \<and>
   evaluate in_f \<lparr>in_filters = empty_filters\<lparr>flt_min_id := [5, 10]\<rparr>, ex_filters = empty_filters\<rparr>
     (f\<lparr>id' := 7\<rparr>) fsz = Inr False"
proof -
  have a: "search_generator re_search
     (sf\<lparr>in_filters := effective_ranges (in_filters sf),
         ex_filters := effective_ranges (ex_filters sf)\<rparr>) it_messages lb =
   search_generator re_search sf it_messages lb"
    unfolding search_generator_def loop_body_effective in_func_effective id_window_effective ..
  have b: "bs \<noteq> [] \<longrightarrow>
      min_test indx bs v = min_test indx [last bs] v \<and>
      max_test indx bs v = max_test indx [last bs] v"
    by (simp add: min_test_def max_test_def min_block_def max_block_def)
  have c: "evaluate in_f \<lparr>in_filters = empty_filters\<lparr>flt_min_id := [5, 10]\<rparr>, ex_filters = empty_filters\<rparr>
     (f\<lparr>id' := 7\<rparr>) fsz = Inr False"
    by (simp add: evaluate_conj well_formed_no_patterns test_simps empty_filters_def patterns_def)
  show ?thesis using a b c by (simp add: id_window_def)
qed

theorem last_bound_effective_witness:
  "[5, 10] \<noteq> ([] :: int list) \<and> \<not> min_test 0 [5, 10] 7 \<and> min_test 0 [5, 10] 10 \<and>
   id_window \<lparr>in_filters = empty_filters\<lparr>flt_min_id := [5, 10], flt_max_id := [30, 20]\<rparr>,
              ex_filters = empty_filters\<rparr> = (Some 10, Some 20) \<and>
   search_generator str_in
     \<lparr>in_filters = empty_filters\<lparr>flt_min_id := [5, 10]\<rparr>, ex_filters = empty_filters\<rparr>
     (Some [remote_file, local_file\<lparr>id' := 10\<rparr>]) None = ([local_file\<lparr>id' := 10\<rparr>], None)"
proof -
  let ?sf = "\<lparr>in_filters = empty_filters\<lparr>flt_min_id := [5, 10]\<rparr>, ex_filters = empty_filters\<rparr>"
  let ?sw = "\<lparr>in_filters = empty_filters\<lparr>flt_min_id := [5, 10], flt_max_id := [30, 20]\<rparr>,
              ex_filters = empty_filters\<rparr>"
  note T = last_bound_effective[of str_in ?sf "Some [remote_file, local_file\<lparr>id' := 10\<rparr>]" None
      "[5, 10]" 0 7 str_in remote_file 100]
  note U = last_bound_effective[of str_in ?sw None None "[5, 10]" 0 10 str_in remote_file 100]
  have a: "\<not> min_test 0 [5, 10] 7" using T by (simp add: min_test_iff)
  have b: "min_test 0 [5, 10] 10" using U by (simp add: min_test_iff)
  have c: "id_window ?sw = (Some 10, Some 20)"
    using U by (simp add: prod_eq_iff empty_filters_def)
  have d: "search_generator str_in ?sf (Some [remote_file, local_file\<lparr>id' := 10\<rparr>]) None =
           ([local_file\<lparr>id' := 10\<rparr>], None)"
    using T
    by (simp add: search_generator_def gen_truthy_def in_func_def loop_body_def run_simps
                  effective_ranges_def effective_def empty_filters_def remote_file_def local_file_def)
  show ?thesis using a b c d by simp
qed

subsection \<open>Range bounds are inclusive\<close>

text \<open>
  C5. The bounds of the range keys are inclusive. With the last bound of a non-empty
  list as the effective bound: a value equal to it passes the \<open>min\<close> test and the \<open>max\<close>
  test of the include pass; and a file whose size, upload time or id equals the
  effective bound of an include criterion on \<open>min_size\<close>, \<open>max_size\<close>, \<open>min_time\<close>,
  \<open>max_time\<close>, \<open>min_id\<close> or \<open>max_id\<close> (no other criterion given) is accepted by the
  evaluator; so is a remote file by its \<open>file_size\<close> and a local file by its \<open>size\<close>.
\<close>

theorem range_bounds_inclusive:
  assumes "bs \<noteq> []"
  shows "min_test 0 bs (last bs) \<and> max_test 0 bs (last bs) \<and>
    evaluate in_f \<lparr>in_filters = empty_filters\<lparr>flt_min_size := bs\<rparr>, ex_filters = empty_filters\<rparr>
      f (last bs) = Inr True \<and>
    evaluate in_f \<lparr>in_filters = empty_filters\<lparr>flt_max_size := bs\<rparr>, ex_filters = empty_filters\<rparr>
      f (last bs) = Inr True \<and>
    evaluate in_f \<lparr>in_filters = empty_filters\<lparr>flt_min_time := bs\<rparr>, ex_filters = empty_filters\<rparr>
      (f\<lparr>upload_time := last bs\<rparr>) fsz = Inr True \<and>
    evaluate in_f \<lparr>in_filters = empty_filters\<lparr>flt_max_time := bs\<rparr>, ex_filters = empty_filters\<rparr>
      (f\<lparr>upload_time := last bs\<rparr>) fsz = Inr True \<and>
    evaluate in_f \<lparr>in_filters = empty_filters\<lparr>flt_min_id := bs\<rparr>, ex_filters = empty_filters\<rparr>
      (f\<lparr>id' := last bs\<rparr>) fsz = Inr True \<and>
    evaluate in_f \<lparr>in_filters = empty_filters\<lparr>flt_max_id := bs\<rparr>, ex_filters = empty_filters\<rparr>
      (f\<lparr>id' := last bs\<rparr>) fsz = Inr True \<and>
    loop_body in_f \<lparr>in_filters = empty_filters\<lparr>flt_min_size := bs\<rparr>, ex_filters = empty_filters\<rparr>
      (f\<lparr>has_message := True, file_size := last bs\<rparr>) = Inr True \<and>
    loop_body in_f \<lparr>in_filters = empty_filters\<lparr>flt_max_size := bs\<rparr>, ex_filters = empty_filters\<rparr>
      (f\<lparr>has_message := False, has_tgbox_db := True, size' := last bs\<rparr>) = Inr True"
  using assms
  by (simp add: loop_body_def evaluate_conj well_formed_no_patterns test_simps empty_filters_def
                patterns_def)

theorem range_bounds_inclusive_witness:
  "[5, 10] \<noteq> ([] :: int list) \<and> min_test 0 [5, 10] 10 \<and> max_test 0 [5, 10] 10 \<and>
   evaluate str_in \<lparr>in_filters = empty_filters\<lparr>flt_min_size := [5, 10]\<rparr>, ex_filters = empty_filters\<rparr>
      remote_file 10 = Inr True \<and>
   evaluate str_in \<lparr>in_filters = empty_filters\<lparr>flt_max_size := [5, 10]\<rparr>, ex_filters = empty_filters\<rparr>
      remote_file 10 = Inr True"
  using range_bounds_inclusive[of "[5, 10]" str_in remote_file 0] by simp



subsection \<open>The output is the subsequence of the passing files\<close>

text \<open>
  C6. For a well-formed search filter the generator yields, from a given sequence and
  from the files of a local box, exactly the files for which the loop body decides to
  yield, in the order of the source, each once, and ends without an exception. When
  every element of the source is a remote or a local file, these are the files that the
  evaluator accepts.
\<close>

theorem output_is_passing_subsequence:
  assumes "well_formed (in_func re_search sf) sf"
  shows "search_generator re_search sf (Some src) lb =
           (filter (\<lambda>f. loop_body (in_func re_search sf) sf f = Inr True) src, None) \<and>
         search_generator re_search sf None (Some files) =
           (filter (\<lambda>f. loop_body (in_func re_search sf) sf f = Inr True)
              (files (fst (id_window sf)) (snd (id_window sf))), None) \<and>
         ((\<forall>f \<in> set src. has_message f \<or> has_tgbox_db f) \<longrightarrow>
            search_generator re_search sf (Some src) lb =
              (filter (\<lambda>f. evaluate (in_func re_search sf) sf f
                                (if has_message f then file_size f else size' f) = Inr True) src,
               None))"
proof -
  have t: "\<forall>f \<in> set xs. \<exists>b. loop_body (in_func re_search sf) sf f = Inr b" for xs
    using loop_body_total[OF assms] by simp
  have a: "search_generator re_search sf (Some src) lb =
           (filter (\<lambda>f. loop_body (in_func re_search sf) sf f = Inr True) src, None)"
    by (simp add: search_generator_it async_for_total[OF t])
  have b: "search_generator re_search sf None (Some files) =
           (filter (\<lambda>f. loop_body (in_func re_search sf) sf f = Inr True)
              (files (fst (id_window sf)) (snd (id_window sf))), None)"
    by (simp add: search_generator_lb async_for_total[OF t])
  have c: "filter (\<lambda>f. loop_body (in_func re_search sf) sf f = Inr True) src =
           filter (\<lambda>f. evaluate (in_func re_search sf) sf f
                          (if has_message f then file_size f else size' f) = Inr True) src"
    if "\<forall>f \<in> set src. has_message f \<or> has_tgbox_db f"
    using that by (intro filter_cong) (auto simp: loop_body_def)
  show ?thesis using a b c by simp
qed

text \<open>
  Included \<open>min_time = [1000]\<close>, excluded \<open>exported\<close>: of four files the second (too
  early) and the third (exported) are dropped, the first and the last are kept in order.
\<close>

theorem output_is_passing_subsequence_witness:
  "well_formed (in_func re_search_lit
       \<lparr>in_filters = empty_filters\<lparr>flt_min_time := [1000]\<rparr>,
        ex_filters = empty_filters\<lparr>flt_exported := Some True\<rparr>\<rparr>)
     \<lparr>in_filters = empty_filters\<lparr>flt_min_time := [1000]\<rparr>,
      ex_filters = empty_filters\<lparr>flt_exported := Some True\<rparr>\<rparr> \<and>
   search_generator re_search_lit
     \<lparr>in_filters = empty_filters\<lparr>flt_min_time := [1000]\<rparr>,
      ex_filters = empty_filters\<lparr>flt_exported := Some True\<rparr>\<rparr>
     (Some [remote_file, local_file\<lparr>upload_time := 999\<rparr>, remote_file\<lparr>exported := True\<rparr>,
            local_file]) None =
     ([remote_file, local_file], None)"
proof -
  let ?sf = "\<lparr>in_filters = empty_filters\<lparr>flt_min_time := [1000]\<rparr>,
      ex_filters = empty_filters\<lparr>flt_exported := Some True\<rparr>\<rparr>"
  have wf: "well_formed (in_func re_search_lit ?sf) ?sf"
    by (simp add: well_formed_def patterns_def empty_filters_def)
  have "search_generator re_search_lit ?sf
     (Some [remote_file, local_file\<lparr>upload_time := 999\<rparr>, remote_file\<lparr>exported := True\<rparr>,
            local_file]) None = ([remote_file, local_file], None)"
    using output_is_passing_subsequence[OF wf, of
        "[remote_file, local_file\<lparr>upload_time := 999\<rparr>, remote_file\<lparr>exported := True\<rparr>,
            local_file]" None "\<lambda>lo hi. []"]
    by (simp add: in_func_def loop_body_def run_simps empty_filters_def
                  remote_file_def local_file_def)
  with wf show ?thesis by simp
qed

subsection \<open>Where a pattern that does not compile is noticed\<close>

text \<open>
  C7, as the code has it. For a well-formed search filter neither the evaluator nor the
  generator raises. Nothing checks the patterns before the loop: on an empty source the
  generator ends without an exception whatever the patterns are, and when the generator
  ends with an exception after a given sequence, the exception was raised by the loop
  body on one of its files, after the files before it were processed without an
  exception and those of them that pass were yielded.
\<close>

theorem raises_only_in_evaluation:
  "(well_formed (in_func re_search sf) sf \<longrightarrow>
      (\<exists>b. evaluate (in_func re_search sf) sf f fsz = Inr b) \<and>
      snd (search_generator re_search sf (Some src) lb) = None \<and>
      snd (search_generator re_search sf None (Some files)) = None) \<and>
   search_generator re_search sf (Some []) lb = ([], None) \<and>
   (search_generator re_search sf (Some src) lb = (ys, Some e) \<longrightarrow>
      (\<exists>pre g post. src = pre @ g # post \<and>
         loop_body (in_func re_search sf) sf g = Inl e \<and>
         (\<forall>h \<in> set pre. \<exists>b. loop_body (in_func re_search sf) sf h = Inr b) \<and>
         ys = filter (\<lambda>h. loop_body (in_func re_search sf) sf h = Inr True) pre))"
proof -
  have a: "well_formed (in_func re_search sf) sf \<longrightarrow>
      (\<exists>b. evaluate (in_func re_search sf) sf f fsz = Inr b) \<and>
      snd (search_generator re_search sf (Some src) lb) = None \<and>
      snd (search_generator re_search sf None (Some files)) = None"
    using loop_body_total[of "in_func re_search sf" sf]
    by (simp add: evaluate_conj search_generator_it search_generator_lb async_for_total)
  have b: "search_generator re_search sf (Some []) lb = ([], None)"
    by (simp add: search_generator_it)
  have c: "search_generator re_search sf (Some src) lb = (ys, Some e) \<longrightarrow>
      (\<exists>pre g post. src = pre @ g # post \<and>
         loop_body (in_func re_search sf) sf g = Inl e \<and>
         (\<forall>h \<in> set pre. \<exists>b. loop_body (in_func re_search sf) sf h = Inr b) \<and>
         ys = filter (\<lambda>h. loop_body (in_func re_search sf) sf h = Inr True) pre)"
    using async_for_raised[of "loop_body (in_func re_search sf) sf" src ys e]
    by (simp add: search_generator_it)
  show ?thesis using a b c by blast
qed

theorem raises_only_in_evaluation_witness:
  "well_formed (in_func re_search_lit \<lparr>in_filters = empty_filters, ex_filters = empty_filters\<rparr>)
     \<lparr>in_filters = empty_filters, ex_filters = empty_filters\<rparr> \<and>
   snd (search_generator re_search_lit \<lparr>in_filters = empty_filters, ex_filters = empty_filters\<rparr>
          (Some [remote_file]) None) = None \<and>
   search_generator re_search_lit bad_name_filter (Some [remote_file, local_file]) None =
     ([remote_file], Some ReError) \<and>
   (\<exists>pre g post. [remote_file, local_file] = pre @ g # post \<and>
      loop_body (in_func re_search_lit bad_name_filter) bad_name_filter g = Inl ReError)"
proof -
  let ?sf = "\<lparr>in_filters = empty_filters, ex_filters = empty_filters\<rparr>"
  have wf: "well_formed (in_func re_search_lit ?sf) ?sf"
    by (simp add: well_formed_def patterns_def empty_filters_def)
  have a: "snd (search_generator re_search_lit ?sf (Some [remote_file]) None) = None"
    using raises_only_in_evaluation[of re_search_lit ?sf remote_file 0 "[remote_file]" None
            "\<lambda>lo hi. []" "[]" ReError] wf
    by blast
  have r: "search_generator re_search_lit bad_name_filter (Some [remote_file, local_file]) None =
     ([remote_file], Some ReError)"
    by (simp add: search_generator_def gen_truthy_def in_func_def loop_body_def run_simps
                re_search_lit_def bad_name_filter_def empty_filters_def
                remote_file_def local_file_def)
  have b: "\<exists>pre g post. [remote_file, local_file] = pre @ g # post \<and>
      loop_body (in_func re_search_lit bad_name_filter) bad_name_filter g = Inl ReError"
    using raises_only_in_evaluation[of re_search_lit bad_name_filter remote_file 0
            "[remote_file, local_file]" None "\<lambda>lo hi. []" "[remote_file]" ReError] r
    by blast
  show ?thesis using wf a r b by simp
qed

text \<open>
  C7 as stated fails: with the regex matcher and the file names \<open>jpg\<close> and \<open>(\<close>
  included, the first file is evaluated and yielded before the second raises; on an
  empty source, and on a source whose files all match \<open>jpg\<close>, nothing is raised at all.
\<close>

theorem bad_pattern_raises_per_record:
  "search_generator re_search_lit bad_name_filter (Some [remote_file, local_file]) None =
     ([remote_file], Some ReError) \<and>
   search_generator re_search_lit bad_name_filter (Some []) None = ([], None) \<and>
   search_generator re_search_lit bad_name_filter (Some [remote_file]) None = ([remote_file], None)"
  by (simp add: search_generator_def gen_truthy_def in_func_def loop_body_def run_simps
                re_search_lit_def bad_name_filter_def empty_filters_def
                remote_file_def local_file_def)

subsection \<open>Files without custom attributes\<close>

text \<open>
  C9. For a file without the attribute \<open>_cattrs\<close> the block of the \<open>cattrs\<close> criteria
  does nothing, in both passes and whatever the criteria and the matcher are: it does not
  raise, it leaves the flags, and the next block runs. The decision of the evaluator is
  the one of the same search filter without \<open>cattrs\<close> criteria.
\<close>

theorem no_cattrs_no_constraint:
  assumes "\<not> has_cattrs f"
  shows "cattrs_block in_f indx (has_cattrs f) (cattrs f) crit yr = Inr (yr, Next) \<and>
         cattrs_test in_f indx (has_cattrs f) (cattrs f) crit \<and>
         evaluate in_f sf f fsz =
           evaluate in_f (sf\<lparr>in_filters := (in_filters sf)\<lparr>flt_cattrs := []\<rparr>,
                             ex_filters := (ex_filters sf)\<lparr>flt_cattrs := []\<rparr>\<rparr>) f fsz"
  using assms
  by (simp add: cattrs_test_def passes_def cattrs_block_def evaluate_no_cattrs)

theorem no_cattrs_no_constraint_witness:
  "\<not> has_cattrs remote_file \<and>
   cattrs_block re_search_lit 0 (has_cattrs remote_file) (cattrs remote_file)
     [[(''b'', ''('')]] [True, True] = Inr ([True, True], Next) \<and>
   evaluate str_in
     \<lparr>in_filters = empty_filters\<lparr>flt_cattrs := [[(''a'', ''x'')]]\<rparr>,
      ex_filters = empty_filters\<lparr>flt_cattrs := [[(''b'', ''y'')]]\<rparr>\<rparr> remote_file 100 = Inr True"
proof -
  have h: "\<not> has_cattrs remote_file" by (simp add: remote_file_def)
  note T = no_cattrs_no_constraint[OF h]
  have a: "cattrs_block re_search_lit 0 (has_cattrs remote_file) (cattrs remote_file)
     [[(''b'', ''('')]] [True, True] = Inr ([True, True], Next)"
    using T[of re_search_lit 0 "[[(''b'', ''('')]]" "[True, True]"] by simp
  have b: "evaluate str_in
     \<lparr>in_filters = empty_filters\<lparr>flt_cattrs := [[(''a'', ''x'')]]\<rparr>,
      ex_filters = empty_filters\<lparr>flt_cattrs := [[(''b'', ''y'')]]\<rparr>\<rparr> remote_file 100 = Inr True"
    using T[of str_in 0 "[]" "[]"
        "\<lparr>in_filters = empty_filters\<lparr>flt_cattrs := [[(''a'', ''x'')]]\<rparr>,
          ex_filters = empty_filters\<lparr>flt_cattrs := [[(''b'', ''y'')]]\<rparr>\<rparr>" 100]
    by (simp add: run_simps empty_filters_def remote_file_def)
  show ?thesis using h a b by simp
qed

subsection \<open>Elements that are neither remote nor local files\<close>

text \<open>
  C10. An element with neither \<open>_message\<close> nor \<open>_tgbox_db\<close> is skipped: the loop body
  continues without evaluating it and without an exception, the element is never among
  the yielded ones, and what the generator produces is what it produces from the source
  without that element.
\<close>

theorem other_elements_skipped:
  assumes "\<not> has_message f" and "\<not> has_tgbox_db f"
  shows "loop_body in_f sf f = Inr False \<and>
         f \<notin> set (fst (search_generator re_search sf it_messages lb)) \<and>
         search_generator re_search sf (Some (pre @ f # post)) lb =
           search_generator re_search sf (Some (pre @ post)) lb \<and>
         search_generator re_search sf None (Some (\<lambda>lo hi. pre @ f # post)) =
           search_generator re_search sf None (Some (\<lambda>lo hi. pre @ post))"
proof -
  have a: "\<And>in_f. loop_body in_f sf f = Inr False"
    using assms by (simp add: loop_body_def)
  have b: "f \<notin> set (fst (search_generator re_search sf it_messages lb))"
    using search_generator_yields[of f re_search sf it_messages lb] a by auto
  show ?thesis
    using a b by (simp add: search_generator_it search_generator_lb async_for_skip)
qed

theorem other_elements_skipped_witness:
  "\<not> has_message (remote_file\<lparr>has_message := False\<rparr>) \<and>
   \<not> has_tgbox_db (remote_file\<lparr>has_message := False\<rparr>) \<and>
   search_generator re_search_lit
     \<lparr>in_filters = empty_filters\<lparr>flt_re := True, flt_mime := [''(''] \<rparr>, ex_filters = empty_filters\<rparr>
     (Some [remote_file\<lparr>has_message := False\<rparr>]) None = ([], None) \<and>
   search_generator str_in \<lparr>in_filters = empty_filters, ex_filters = empty_filters\<rparr>
     (Some [remote_file, remote_file\<lparr>has_message := False\<rparr>, local_file]) None =
     ([remote_file, local_file], None)"
proof -
  let ?o = "remote_file\<lparr>has_message := False\<rparr>"
  have h1: "\<not> has_message ?o" by simp
  have h2: "\<not> has_tgbox_db ?o" by (simp add: remote_file_def)
  note T = other_elements_skipped[OF h1 h2]
  have a: "search_generator re_search_lit
     \<lparr>in_filters = empty_filters\<lparr>flt_re := True, flt_mime := [''(''] \<rparr>, ex_filters = empty_filters\<rparr>
     (Some [?o]) None = ([], None)"
    using T[of _ _ re_search_lit _ _ "[]" "[]"]
    by (simp add: search_generator_it)
  have b: "search_generator str_in \<lparr>in_filters = empty_filters, ex_filters = empty_filters\<rparr>
     (Some [remote_file, ?o, local_file]) None = ([remote_file, local_file], None)"
    using T[of str_in "\<lparr>in_filters = empty_filters, ex_filters = empty_filters\<rparr>" str_in
            None None "[remote_file]" "[local_file]"]
    by (simp add: search_generator_it in_func_def loop_body_def run_simps empty_filters_def
                  remote_file_def local_file_def)
  show ?thesis using h1 h2 a b by simp
qed

subsection \<open>No source\<close>

text \<open>
  C8, at its failing input. With neither \<open>it_messages\<close> nor \<open>lb\<close> the generator ends
  before any file is read, but with the \<open>AttributeError\<close> of \<open>lb.files\<close> at line 219:
  the check and the \<open>ValueError\<close> of lines 221-222 are not reached.
\<close>

theorem no_source_attribute_error:
  "search_generator re_search sf None None = ([], Some AttributeError) \<and>
   search_generator re_search sf None None \<noteq> ([], Some ValueError)"
  by (simp add: search_generator_none)

subsection \<open>Several \<open>cattrs\<close> criteria in the include pass\<close>

text \<open>
  C2, at its failing input. The entries of a set key are alternatives: with
  \<open>image/png\<close> and \<open>image/jpeg\<close> included a file of type \<open>image/jpeg\<close> passes. For
  \<open>cattrs\<close> the include pass does not do so: the file has the attribute \<open>b\<close> with value
  \<open>y\<close>, the criterion \<open>{b: y}\<close> matches it and alone accepts it, but after the
  criterion \<open>{a: x}\<close>, which does not match, the file is rejected.
\<close>

theorem cattrs_include_needs_every_mapping:
  "set_test (\<lambda>p. str_in p ''image/jpeg'') 0 [''image/png'', ''image/jpeg''] \<and>
   first_match (cattr_item str_in (cattrs local_file)) [(''b'', ''y'')] = Inr True \<and>
   cattrs_test str_in 0 (has_cattrs local_file) (cattrs local_file) [[(''b'', ''y'')]] \<and>
   \<not> cattrs_test str_in 0 (has_cattrs local_file) (cattrs local_file)
       [[(''a'', ''x'')], [(''b'', ''y'')]] \<and>
   search_generator str_in two_cattrs_filter (Some [local_file]) None = ([], None)"
  by (simp add: search_generator_def gen_truthy_def in_func_def loop_body_def run_simps
                set_test_def cattrs_test_def passes_def two_cattrs_filter_def
                empty_filters_def local_file_def)

end
